theory Spec2Isabelle
  imports Main "HOL-Library.Sublist"
begin

section \<open>The service worker of Foodiebot-AI: offline support and caching\<close>

text \<open>
  A shallow embedding of the service worker script (the source file that registers the
  \<^verbatim>\<open>install\<close>, \<^verbatim>\<open>activate\<close>, \<^verbatim>\<open>fetch\<close> and \<^verbatim>\<open>sync\<close> listeners).
  The worker's asynchronous functions are modelled sequentially: every function takes the
  state of the worker's environment and returns the value its promise settles with,
  together with the new state. A promise settles either fulfilled with a JavaScript value
  (a \<^verbatim>\<open>Response\<close> or \<^verbatim>\<open>undefined\<close>) or rejected. The network is a parameter: a function
  that tells, for every call of \<^verbatim>\<open>fetch\<close>, whether the promise is fulfilled with a
  response or rejected. Of the Cache API, \<^verbatim>\<open>caches.open\<close>, \<^verbatim>\<open>match\<close>, \<^verbatim>\<open>keys\<close> and
  \<^verbatim>\<open>delete\<close> are awaited by the source and are taken as atomic and infallible;
  \<^verbatim>\<open>cache.put\<close> is never awaited by the source, so a write is modelled in two steps:
  the call starts it, and it settles later, stored or refused.
\<close>

subsection \<open>Strings\<close>

definition startsWith :: "string \<Rightarrow> string \<Rightarrow> bool" where
  "startsWith s t = prefix t s"

definition endsWith :: "string \<Rightarrow> string \<Rightarrow> bool" where
  "endsWith s t = suffix t s"

subsection \<open>Requests and responses\<close>

record url =
  origin :: string
  pathname :: string
  search :: string

definition href :: "url \<Rightarrow> string" where
  "href u = origin u @ pathname u @ search u"

record request =
  "method" :: string
  url :: url
  mode :: string

record response =
  status :: nat
  statusText :: string
  headers :: "(string \<times> string) list"
  body :: string

text \<open>\<^verbatim>\<open>Response.ok\<close>: the status is in the range 200 to 299.\<close>

definition ok :: "response \<Rightarrow> bool" where
  "ok r = (200 \<le> status r \<and> status r \<le> 299)"

text \<open>
  \<^verbatim>\<open>new Response(body, {status, statusText, headers})\<close> for a string body: when the
  headers name no content type, the constructor adds the one of a text body.
\<close>

definition new_Response :: "string \<Rightarrow> nat \<Rightarrow> string \<Rightarrow> (string \<times> string) list \<Rightarrow> response" where
  "new_Response b st txt hs =
     \<lparr>status = st, statusText = txt,
      headers = (if ''Content-Type'' \<in> set (map fst hs) then hs
                 else hs @ [(''Content-Type'', ''text/plain;charset=UTF-8'')]),
      body = b\<rparr>"

datatype jsvalue = Undefined | Resp response

datatype settled = Fulfilled jsvalue | Rejected

subsection \<open>The environment: cache storage, network log, pending orders\<close>

type_synonym cache = "(string \<times> response) list"

record order =
  order_id :: nat
  order_payload :: string

text \<open>
  A call of \<^verbatim>\<open>fetch\<close>: with a request the worker intercepted, or the POST of a pending
  order to \<^verbatim>\<open>/api/orders\<close>.
\<close>

datatype net_call = Fetch request | PostOrder order

type_synonym network = "net_call \<Rightarrow> response option"

record sw_state =
  location :: string
  caches :: "(string \<times> cache) list"
  fetched :: "net_call list"
  pendingPuts :: "(string \<times> string \<times> response) list"
  offlineOrders :: "order list"

text \<open>
  \<open>location\<close> is the origin of the worker's own URL, against which a relative URL
  such as \<^verbatim>\<open>'/index.html'\<close> is resolved; \<open>caches\<close> is the \<^verbatim>\<open>CacheStorage\<close>, the named
  caches in the order of their creation; \<open>fetched\<close> logs every call of \<^verbatim>\<open>fetch\<close> the
  worker issues; \<open>pendingPuts\<close> holds the cache writes the worker has started and not
  awaited (cache name, key, response), in the order of the calls; \<open>offlineOrders\<close> is
  the queue of orders placed offline (see the section on background sync: the source
  has no such queue).
\<close>

definition request_key :: "request \<Rightarrow> string" where
  "request_key req = href (url req)"

definition resolve_url :: "sw_state \<Rightarrow> string \<Rightarrow> string" where
  "resolve_url st path = location st @ path"

text \<open>\<^verbatim>\<open>cache.match(key)\<close>, and the effect of a write on one cache.\<close>

definition cache_match :: "cache \<Rightarrow> string \<Rightarrow> response option" where
  "cache_match c k = map_of c k"

definition cache_put :: "cache \<Rightarrow> string \<Rightarrow> response \<Rightarrow> cache" where
  "cache_put c k r = filter (\<lambda>(k', _). k' \<noteq> k) c @ [(k, r)]"

text \<open>\<^verbatim>\<open>caches.match(request)\<close>: the first cache, in creation order, that holds the key.\<close>

fun storage_match :: "(string \<times> cache) list \<Rightarrow> string \<Rightarrow> response option" where
  "storage_match [] k = None"
| "storage_match ((n, c) # cs) k =
     (case cache_match c k of Some r \<Rightarrow> Some r | None \<Rightarrow> storage_match cs k)"

definition caches_match :: "sw_state \<Rightarrow> string \<Rightarrow> response option" where
  "caches_match st k = storage_match (caches st) k"

text \<open>\<^verbatim>\<open>caches.open(name)\<close> creates the cache when there is none of that name.\<close>

definition caches_open :: "string \<Rightarrow> sw_state \<Rightarrow> sw_state" where
  "caches_open name st =
     (if name \<in> set (map fst (caches st)) then st
      else st\<lparr>caches := caches st @ [(name, [])]\<rparr>)"

definition caches_keys :: "sw_state \<Rightarrow> string list" where
  "caches_keys st = map fst (caches st)"

definition caches_delete :: "string \<Rightarrow> sw_state \<Rightarrow> sw_state" where
  "caches_delete name st = st\<lparr>caches := filter (\<lambda>(n, _). n \<noteq> name) (caches st)\<rparr>"

text \<open>\<^verbatim>\<open>cache.match\<close> through the handle that \<^verbatim>\<open>caches.open(name)\<close> returned.\<close>

definition handle_match :: "string \<Rightarrow> string \<Rightarrow> sw_state \<Rightarrow> response option" where
  "handle_match name k st =
     (case map_of (caches st) name of None \<Rightarrow> None | Some c \<Rightarrow> cache_match c k)"

text \<open>
  \<^verbatim>\<open>cache.put(request, response)\<close> through the handle that \<^verbatim>\<open>caches.open(name)\<close>
  returned. The source never awaits the promise of \<^verbatim>\<open>cache.put\<close> and never catches
  its rejection: the call only starts the write, and the function that called it goes on
  (and returns) before the write is in the cache. The Cache API refuses to store a
  response of status 206 and a response whose \<^verbatim>\<open>Vary\<close> header holds \<^verbatim>\<open>*\<close>; the promise
  is then rejected and the cache is left as it was.
\<close>

definition ascii_lower :: "char \<Rightarrow> char" where
  "ascii_lower c =
     (case map_of (zip ''ABCDEFGHIJKLMNOPQRSTUVWXYZ'' ''abcdefghijklmnopqrstuvwxyz'') c of
        Some l \<Rightarrow> l
      | None \<Rightarrow> c)"

fun split_on :: "char \<Rightarrow> string \<Rightarrow> string list" where
  "split_on sep [] = [[]]"
| "split_on sep (c # cs) =
     (if c = sep then [] # split_on sep cs
      else (case split_on sep cs of
              w # ws \<Rightarrow> (c # w) # ws
            | [] \<Rightarrow> [[c]]))"

definition trim :: "string \<Rightarrow> string" where
  "trim s = rev (dropWhile (\<lambda>c. c = CHR '' '' \<or> c = CHR 0x09)
              (rev (dropWhile (\<lambda>c. c = CHR '' '' \<or> c = CHR 0x09) s)))"

definition vary_star :: "response \<Rightarrow> bool" where
  "vary_star r =
     list_ex (\<lambda>(name, v). map ascii_lower name = ''vary'' \<and>
                list_ex (\<lambda>fieldValue. trim fieldValue = ''*'') (split_on CHR '','' v))
       (headers r)"

definition put_refused :: "response \<Rightarrow> bool" where
  "put_refused r = (status r = 206 \<or> vary_star r)"

text \<open>The call of \<^verbatim>\<open>cache.put\<close>, not awaited: the write is started.\<close>

definition handle_put :: "string \<Rightarrow> string \<Rightarrow> response \<Rightarrow> sw_state \<Rightarrow> sw_state" where
  "handle_put name k r st = st\<lparr>pendingPuts := pendingPuts st @ [(name, k, r)]\<rparr>"

text \<open>
  A started write settles: a refused response changes nothing (nobody handles the
  rejection), any other response becomes the entry of its key in the cache of the handle.
\<close>

definition land_put :: "string \<times> string \<times> response \<Rightarrow> sw_state \<Rightarrow> sw_state" where
  "land_put p st =
     (case p of (name, k, r) \<Rightarrow>
        if put_refused r then st
        else st\<lparr>caches :=
               map (\<lambda>(n, c). if n = name then (n, cache_put c k r) else (n, c)) (caches st)\<rparr>)"

text \<open>All writes that were started have settled, in the order in which they were started.\<close>

definition settle_puts :: "sw_state \<Rightarrow> sw_state" where
  "settle_puts st = (fold land_put (pendingPuts st) st)\<lparr>pendingPuts := []\<rparr>"

definition log_fetch :: "net_call \<Rightarrow> sw_state \<Rightarrow> sw_state" where
  "log_fetch call st = st\<lparr>fetched := fetched st @ [call]\<rparr>"

subsection \<open>Constants of the worker\<close>

definition STATIC_CACHE :: string where
  "STATIC_CACHE = ''foodiebot-static-v1''"

definition DYNAMIC_CACHE :: string where
  "DYNAMIC_CACHE = ''foodiebot-dynamic-v1''"

definition API_CACHE :: string where
  "API_CACHE = ''foodiebot-api-v1''"

definition STATIC_ASSETS :: "string list" where
  "STATIC_ASSETS =
     [''/'',
      ''/index.html'',
      ''/styles/style.css'',
      ''/js/main.js'',
      ''/js/chatbot.js'',
      ''/js/animations.js'',
      ''/js/location.js'',
      ''/js/payment.js'',
      ''/js/qr-code.js'',
      ''/js/error-handler.js'',
      ''/js/performance-optimizer.js'',
      ''/js/security-manager.js'',
      ''/config.js'',
      ''/assets/favicon-32x32.png'',
      ''/assets/favicon-16x16.png'',
      ''/assets/apple-touch-icon.png'',
      ''https://fonts.googleapis.com/css2?family=Poppins:wght@300;400;500;600;700&display=swap'',
      ''https://cdnjs.cloudflare.com/ajax/libs/font-awesome/6.4.0/css/all.min.css'']"

definition API_ENDPOINTS :: "string list" where
  "API_ENDPOINTS = [''/api/restaurants'', ''/api/menu'', ''/api/search'']"

datatype strategy =
  CACHE_FIRST | NETWORK_FIRST | STALE_WHILE_REVALIDATE | NETWORK_ONLY | CACHE_ONLY

subsection \<open>Classification of a URL\<close>

text \<open>
  The regular expression \<^verbatim>\<open>/\.(e1|...|en)$/\<close> matches a path exactly when the path ends
  with a dot followed by one of the extensions.
\<close>

definition matches_extension :: "string \<Rightarrow> string list \<Rightarrow> bool" where
  "matches_extension p exts = list_ex (\<lambda>e. endsWith p (''.'' @ e)) exts"

definition isStaticAsset :: "url \<Rightarrow> bool" where
  "isStaticAsset u =
     (list_ex (\<lambda>asset. endsWith (pathname u) asset) STATIC_ASSETS \<or>
      matches_extension (pathname u)
        [''css'', ''js'', ''png'', ''jpg'', ''jpeg'', ''gif'', ''svg'', ''woff'', ''woff2'',
         ''ttf'', ''ico''])"

definition isAPIRequest :: "url \<Rightarrow> bool" where
  "isAPIRequest u =
     (startsWith (pathname u) ''/api/'' \<or>
      list_ex (\<lambda>endpoint. startsWith (pathname u) endpoint) API_ENDPOINTS)"

definition isImageRequest :: "url \<Rightarrow> bool" where
  "isImageRequest u =
     matches_extension (pathname u) [''png'', ''jpg'', ''jpeg'', ''gif'', ''svg'', ''webp'']"

definition getCacheName :: "request \<Rightarrow> string" where
  "getCacheName req =
     (if isStaticAsset (url req) then STATIC_CACHE
      else if isAPIRequest (url req) then API_CACHE
      else DYNAMIC_CACHE)"

text \<open>
  The strategy the \<^verbatim>\<open>fetch\<close> listener chooses: the variable starts as
  \<^verbatim>\<open>NETWORK_FIRST\<close> and is overwritten by the first test that succeeds.
\<close>

definition selectStrategy :: "url \<Rightarrow> strategy" where
  "selectStrategy u =
     (let strategy = NETWORK_FIRST in
      if isStaticAsset u then CACHE_FIRST
      else if isAPIRequest u then STALE_WHILE_REVALIDATE
      else if isImageRequest u then CACHE_FIRST
      else strategy)"

subsection \<open>The offline fallback\<close>

text \<open>
  \<^verbatim>\<open>JSON.stringify\<close> of an object whose fields hold strings and booleans; a string is
  quoted, with the double quote and the backslash escaped.
\<close>

datatype jsfield = JString string | JBool bool

definition JSON_quote :: "string \<Rightarrow> string" where
  \<open>JSON_quote s =
     ''"'' @ concat (map (\<lambda>c. if c = CHR ''"'' \<or> c = CHR 0x5C then [CHR 0x5C, c] else [c]) s) @ ''"''\<close>

fun JSON_field :: "jsfield \<Rightarrow> string" where
  "JSON_field (JString s) = JSON_quote s"
| "JSON_field (JBool b) = (if b then ''true'' else ''false'')"

fun JSON_members :: "(string \<times> jsfield) list \<Rightarrow> string" where
  "JSON_members [] = []"
| "JSON_members [(k, v)] = JSON_quote k @ '':'' @ JSON_field v"
| "JSON_members ((k, v) # kvs) = JSON_quote k @ '':'' @ JSON_field v @ '','' @ JSON_members kvs"

definition JSON_stringify :: "(string \<times> jsfield) list \<Rightarrow> string" where
  "JSON_stringify obj = ''{'' @ JSON_members obj @ ''}''"

text \<open>The template literal of the source, line breaks and indentation included.\<close>

definition getOfflineImageSVG :: string where
  \<open>getOfflineImageSVG =
     ''\<newline>        <svg width="200" height="200" xmlns="http://www.w3.org/2000/svg">'' @
     ''\<newline>            <rect width="100%" height="100%" fill="#f0f0f0"/>'' @
     ''\<newline>            <text x="50%" y="50%" font-family="Arial" font-size="14" fill="#999" text-anchor="middle" dy=".3em">'' @
     ''\<newline>                Image Unavailable Offline'' @
     ''\<newline>            </text>'' @
     ''\<newline>        </svg>'' @
     ''\<newline>    ''\<close>

text \<open>
  \<^verbatim>\<open>getOfflineFallback\<close>. In the navigation branch the source returns
  \<^verbatim>\<open>cache.match('/index.html') || new Response('Offline', ...)\<close>: the left operand is
  the promise that \<^verbatim>\<open>cache.match\<close> returns, an object and therefore truthy, so the
  right operand is never evaluated and the function settles with what that promise
  settles with: the stored response, or \<^verbatim>\<open>undefined\<close> when there is none.
\<close>

definition getOfflineFallback :: "sw_state \<Rightarrow> request \<Rightarrow> settled \<times> sw_state" where
  "getOfflineFallback st req =
     (if mode req = ''navigate'' then
        (let st1 = caches_open STATIC_CACHE st in
         (case handle_match STATIC_CACHE (resolve_url st1 ''/index.html'') st1 of
            Some r \<Rightarrow> (Fulfilled (Resp r), st1)
          | None \<Rightarrow> (Fulfilled Undefined, st1)))
      else if isAPIRequest (url req) then
        (Fulfilled (Resp (new_Response
           (JSON_stringify
              [(''error'', JString ''Offline''),
               (''message'', JString ''This feature is not available offline''),
               (''offline'', JBool True)])
           200 [] [(''Content-Type'', ''application/json'')])), st)
      else if isImageRequest (url req) then
        (Fulfilled (Resp (new_Response getOfflineImageSVG
           200 [] [(''Content-Type'', ''image/svg+xml'')])), st)
      else
        (Fulfilled (Resp (new_Response ''Offline'' 503 ''Service Unavailable'' [])), st))"

subsection \<open>The caching strategies\<close>

text \<open>
  \<^verbatim>\<open>cacheFirst\<close>: the whole body is inside \<^verbatim>\<open>try\<close>, and a rejected \<^verbatim>\<open>fetch\<close> is
  the one exception of the model, so the \<^verbatim>\<open>catch\<close> block is the branch of the
  rejected fetch.
\<close>

definition cacheFirst :: "network \<Rightarrow> sw_state \<Rightarrow> request \<Rightarrow> settled \<times> sw_state" where
  "cacheFirst net st req =
     (case caches_match st (request_key req) of
        Some cachedResponse \<Rightarrow> (Fulfilled (Resp cachedResponse), st)
      | None \<Rightarrow>
          (let st1 = log_fetch (Fetch req) st in
           case net (Fetch req) of
             None \<Rightarrow> getOfflineFallback st1 req
           | Some networkResponse \<Rightarrow>
               (Fulfilled (Resp networkResponse),
                if ok networkResponse
                then handle_put (getCacheName req) (request_key req) networkResponse
                       (caches_open (getCacheName req) st1)
                else st1)))"

definition networkFirst :: "network \<Rightarrow> sw_state \<Rightarrow> request \<Rightarrow> settled \<times> sw_state" where
  "networkFirst net st req =
     (let st1 = log_fetch (Fetch req) st in
      case net (Fetch req) of
        Some networkResponse \<Rightarrow>
          (Fulfilled (Resp networkResponse),
           if ok networkResponse
           then handle_put (getCacheName req) (request_key req) networkResponse
                  (caches_open (getCacheName req) st1)
           else st1)
      | None \<Rightarrow>
          (case caches_match st1 (request_key req) of
             Some cachedResponse \<Rightarrow> (Fulfilled (Resp cachedResponse), st1)
           | None \<Rightarrow> getOfflineFallback st1 req))"

text \<open>
  \<^verbatim>\<open>staleWhileRevalidate\<close>, in the two parts its execution has. The first part runs
  until the function either returns the cached response or awaits \<open>networkPromise\<close>:
  it opens the cache, looks the request up and calls \<^verbatim>\<open>fetch\<close>; the fetch has been
  issued and has not settled, and this part does not see its outcome. Its result is the
  answer to the caller when there is a cached response, and \<open>None\<close> when the caller
  has to wait for the fetch.
\<close>

definition staleWhileRevalidate_start :: "sw_state \<Rightarrow> request \<Rightarrow> settled option \<times> sw_state" where
  "staleWhileRevalidate_start st req =
     (let cache = getCacheName req;
          st1 = caches_open cache st;
          cachedResponse = handle_match cache (request_key req) st1;
          st2 = log_fetch (Fetch req) st1
      in case cachedResponse of
           Some r \<Rightarrow> (Some (Fulfilled (Resp r)), st2)
         | None \<Rightarrow> (None, st2))"

text \<open>
  The second part runs when the fetch settles, with a response or rejected.
  \<open>networkPromise\<close> is \<^verbatim>\<open>fetch(request).then(...).catch((error) => { console.log(...) })\<close>:
  when the fetch is fulfilled, the \<^verbatim>\<open>then\<close> callback starts the write of an ok
  response and passes the response on; when the fetch is rejected, the \<^verbatim>\<open>catch\<close>
  callback logs and returns nothing, so the promise is fulfilled with \<^verbatim>\<open>undefined\<close>.
\<close>

definition networkPromise :: "response option \<Rightarrow> string \<Rightarrow> sw_state \<Rightarrow> request \<Rightarrow> settled \<times> sw_state" where
  "networkPromise outcome cache st req =
     (case outcome of
        Some networkResponse \<Rightarrow>
          (Fulfilled (Resp networkResponse),
           if ok networkResponse
           then handle_put cache (request_key req) networkResponse st
           else st)
      | None \<Rightarrow> (Fulfilled Undefined, st))"

text \<open>
  The whole function on a given network. A caller that was answered in the first part
  keeps that answer; a caller that waits gets what \<open>networkPromise\<close> settles with: the
  final \<^verbatim>\<open>try\<close>/\<^verbatim>\<open>catch\<close> around \<^verbatim>\<open>await networkPromise\<close> is the case distinction on
  how that promise settled.
\<close>

definition staleWhileRevalidate :: "network \<Rightarrow> sw_state \<Rightarrow> request \<Rightarrow> settled \<times> sw_state" where
  "staleWhileRevalidate net st req =
     (let (answer, st1) = staleWhileRevalidate_start st req;
          (promised, st2) = networkPromise (net (Fetch req)) (getCacheName req) st1 req
      in case answer of
           Some a \<Rightarrow> (a, st2)
         | None \<Rightarrow>
             (case promised of
                Fulfilled v \<Rightarrow> (Fulfilled v, st2)
              | Rejected \<Rightarrow> getOfflineFallback st2 req))"

text \<open>
  \<^verbatim>\<open>handleRequest\<close>: the \<^verbatim>\<open>switch\<close> over the strategy. Its \<^verbatim>\<open>default\<close> branch is
  not reached by any of the five strategies. \<^verbatim>\<open>NETWORK_ONLY\<close> returns the promise of
  \<^verbatim>\<open>fetch\<close> itself, the one place where a rejection reaches the caller.
\<close>

definition handleRequest :: "network \<Rightarrow> sw_state \<Rightarrow> request \<Rightarrow> strategy \<Rightarrow> settled \<times> sw_state" where
  "handleRequest net st req strategy =
     (case strategy of
        CACHE_FIRST \<Rightarrow> cacheFirst net st req
      | NETWORK_FIRST \<Rightarrow> networkFirst net st req
      | STALE_WHILE_REVALIDATE \<Rightarrow> staleWhileRevalidate net st req
      | NETWORK_ONLY \<Rightarrow>
          (case net (Fetch req) of
             Some r \<Rightarrow> (Fulfilled (Resp r), log_fetch (Fetch req) st)
           | None \<Rightarrow> (Rejected, log_fetch (Fetch req) st))
      | CACHE_ONLY \<Rightarrow>
          (case caches_match st (request_key req) of
             Some r \<Rightarrow> (Fulfilled (Resp r), st)
           | None \<Rightarrow> (Fulfilled Undefined, st)))"

text \<open>
  The \<^verbatim>\<open>fetch\<close> listener: for a request that is not a GET it returns without
  calling \<^verbatim>\<open>event.respondWith\<close> (the result \<open>None\<close>: the worker does not answer and
  the browser handles the request itself); otherwise it answers with \<^verbatim>\<open>handleRequest\<close>.
\<close>

definition fetchListener :: "network \<Rightarrow> sw_state \<Rightarrow> request \<Rightarrow> settled option \<times> sw_state" where
  "fetchListener net st req =
     (if method req \<noteq> ''GET'' then (None, st)
      else
        (let strategy = selectStrategy (url req);
             (answer, st') = handleRequest net st req strategy
         in (Some answer, st')))"

subsection \<open>Activation\<close>

text \<open>
  The \<^verbatim>\<open>activate\<close> listener: every cache whose name is none of the three current names
  is deleted.
\<close>

definition activate :: "sw_state \<Rightarrow> sw_state" where
  "activate st =
     fold (\<lambda>cacheName s.
             if cacheName \<noteq> STATIC_CACHE \<and> cacheName \<noteq> DYNAMIC_CACHE \<and> cacheName \<noteq> API_CACHE
             then caches_delete cacheName s else s)
          (caches_keys st) st"

subsection \<open>Background sync of offline orders\<close>

text \<open>
  The two IndexedDB helpers as the source has them, placeholders by the source's own
  comments (\<^verbatim>\<open>simplified - would need full implementation\<close>): \<^verbatim>\<open>getOfflineOrders\<close>
  returns the empty array and \<^verbatim>\<open>removeOfflineOrder\<close> has an empty body.
\<close>

definition getOfflineOrders :: "sw_state \<Rightarrow> order list" where
  "getOfflineOrders st = []"

definition removeOfflineOrder :: "nat \<Rightarrow> sw_state \<Rightarrow> sw_state" where
  "removeOfflineOrder orderId st = st"

text \<open>
  The loop of \<^verbatim>\<open>syncOfflineOrders\<close> over the array it read, with the two helpers as
  parameters: one POST per order, the order removed when the response is ok, a rejected
  fetch caught and logged inside the loop.
\<close>

fun syncLoop :: "(nat \<Rightarrow> sw_state \<Rightarrow> sw_state) \<Rightarrow> network \<Rightarrow> order list \<Rightarrow> sw_state \<Rightarrow> sw_state" where
  "syncLoop remove net [] st = st"
| "syncLoop remove net (order # rest) st =
     (let st1 = log_fetch (PostOrder order) st;
          st2 = (case net (PostOrder order) of
                   Some response \<Rightarrow> if ok response then remove (order_id order) st1 else st1
                 | None \<Rightarrow> st1)
      in syncLoop remove net rest st2)"

definition syncOrdersWith ::
  "(sw_state \<Rightarrow> order list) \<Rightarrow> (nat \<Rightarrow> sw_state \<Rightarrow> sw_state) \<Rightarrow> network \<Rightarrow> sw_state \<Rightarrow> sw_state" where
  "syncOrdersWith get remove net st = syncLoop remove net (get st) st"

definition syncOfflineOrders :: "network \<Rightarrow> sw_state \<Rightarrow> sw_state" where
  "syncOfflineOrders net st = syncOrdersWith getOfflineOrders removeOfflineOrder net st"

subsection \<open>The categories of the offline fallback\<close>

text \<open>
  The branch of \<open>getOfflineFallback\<close> a request takes, in the order of the source's
  tests, and the root document the navigation branch reads from the static cache.
\<close>

datatype category = Navigation | Api | Image | Other

definition fallbackCategory :: "request \<Rightarrow> category" where
  "fallbackCategory req =
     (if mode req = ''navigate'' then Navigation
      else if isAPIRequest (url req) then Api
      else if isImageRequest (url req) then Image
      else Other)"

definition rootDocument :: "sw_state \<Rightarrow> response option" where
  "rootDocument st = handle_match STATIC_CACHE (resolve_url st ''/index.html'') st"

subsection \<open>The queue of pending orders\<close>




subsection \<open>Example inputs\<close>

definition app_origin :: string where
  "app_origin = ''https://foodiebot.app''"

definition empty_state :: sw_state where
  "empty_state = \<lparr>location = app_origin, caches = [], fetched = [], pendingPuts = [], offlineOrders = []\<rparr>"

definition get_request :: "string \<Rightarrow> string \<Rightarrow> request" where
  "get_request path m =
     \<lparr>method = ''GET'', url = \<lparr>origin = app_origin, pathname = path, search = []\<rparr>, mode = m\<rparr>"

text \<open>A network on which every fetch is rejected.\<close>

definition offline :: network where
  "offline call = None"

text \<open>A network that answers every fetch with the same response.\<close>

definition online :: "response \<Rightarrow> network" where
  "online r call = Some r"

definition fresh_response :: response where
  "fresh_response =
     \<lparr>status = 200, statusText = ''OK'', headers = [(''Content-Type'', ''text/html'')],
      body = ''fresh''\<rparr>"

definition stale_response :: response where
  "stale_response =
     \<lparr>status = 200, statusText = ''OK'', headers = [(''Content-Type'', ''text/html'')],
      body = ''stale''\<rparr>"

definition partial_response :: response where
  "partial_response =
     \<lparr>status = 206, statusText = ''Partial Content'',
      headers = [(''Content-Range'', ''bytes 0-4/10'')], body = ''fresh''\<rparr>"


text \<open>A state whose cache storage is one cache with one entry.\<close>

definition stored_state :: "string \<Rightarrow> string \<Rightarrow> response \<Rightarrow> sw_state" where
  "stored_state name k r =
     \<lparr>location = app_origin, caches = [(name, [(k, r)])], fetched = [], pendingPuts = [],
      offlineOrders = []\<rparr>"

text \<open>
  The cache storage of the activation example: the three current caches and one of an
  older version.
\<close>

definition old_version_state :: sw_state where
  "old_version_state =
     \<lparr>location = app_origin,
      caches =
        [(''foodiebot-static-v0'', [(''https://foodiebot.app/index.html'', stale_response)]),
         (''foodiebot-static-v1'', [(''https://foodiebot.app/index.html'', fresh_response)]),
         (''foodiebot-dynamic-v1'', [(''https://foodiebot.app/menu'', fresh_response)]),
         (''foodiebot-api-v1'', [])],
      fetched = [], pendingPuts = [], offlineOrders = []\<rparr>"






section \<open>Properties\<close>

subsection \<open>The store primitives\<close>

lemma cache_match_put_same: "cache_match (cache_put c k r) k = Some r"
  by (induction c) (auto simp: cache_match_def cache_put_def)

lemma handle_match_open: "handle_match name k (caches_open name' st) = handle_match name k st"
proof (cases "name' \<in> set (map fst (caches st))")
  case True
  then show ?thesis by (simp add: caches_open_def)
next
  case False
  then have "map_of (caches st) name' = None"
    by (simp add: map_of_eq_None_iff)
  with False show ?thesis
    by (auto simp: handle_match_def caches_open_def cache_match_def map_add_def
        split: option.splits)
qed




lemma map_of_put_same:
  "name \<in> set (map fst cs) \<Longrightarrow>
   \<exists>c. map_of (map (\<lambda>(n, c). if n = name then (n, cache_put c k r) else (n, c)) cs) name
          = Some (cache_put c k r)"
  by (induction cs) auto





lemma handle_match_Some_open:
  "handle_match name k st = Some c \<Longrightarrow> caches_open name st = st"
  by (auto simp: handle_match_def caches_open_def split: option.splits dest: map_of_SomeD
      intro: rev_image_eqI)

lemma handle_match_Some_named:
  "handle_match name k st = Some c \<Longrightarrow> name \<in> set (map fst (caches st))"
  by (auto simp: handle_match_def split: option.splits dest: map_of_SomeD intro: rev_image_eqI)

text \<open>Logging a fetch and starting a write leave the caches as they are.\<close>

lemma log_fetch_fields [simp]:
  "caches (log_fetch call st) = caches st"
  "fetched (log_fetch call st) = fetched st @ [call]"
  "pendingPuts (log_fetch call st) = pendingPuts st"
  "offlineOrders (log_fetch call st) = offlineOrders st"
  "handle_match n k (log_fetch call st) = handle_match n k st"
  "caches_match (log_fetch call st) k = caches_match st k"
  by (simp_all add: log_fetch_def handle_match_def caches_match_def)

lemma handle_put_fields [simp]:
  "caches (handle_put name k r st) = caches st"
  "fetched (handle_put name k r st) = fetched st"
  "pendingPuts (handle_put name k r st) = pendingPuts st @ [(name, k, r)]"
  "handle_match n k' (handle_put name k r st) = handle_match n k' st"
  "caches_match (handle_put name k r st) k' = caches_match st k'"
  by (simp_all add: handle_put_def handle_match_def caches_match_def)

lemma caches_open_fields [simp]:
  "fetched (caches_open name st) = fetched st"
  "pendingPuts (caches_open name st) = pendingPuts st"
  by (simp_all add: caches_open_def)

text \<open>A write that settles.\<close>

lemma land_put_fields [simp]:
  "fetched (land_put p st) = fetched st"
  "pendingPuts (land_put p st) = pendingPuts st"
  "map fst (caches (land_put p st)) = map fst (caches st)"
  by (auto simp: land_put_def split: prod.splits)

lemma land_put_same:
  "\<not> put_refused r \<Longrightarrow> name \<in> set (map fst (caches st)) \<Longrightarrow>
   handle_match name k (land_put (name, k, r) st) = Some r"
  using map_of_put_same [of name "caches st" k r]
  by (auto simp: land_put_def handle_match_def cache_match_put_same)


lemma land_put_refused: "put_refused r \<Longrightarrow> land_put (name, k, r) st = st"
  by (simp add: land_put_def)


lemma fold_land_put_fields [simp]:
  "fetched (fold land_put ps st) = fetched st"
  "map fst (caches (fold land_put ps st)) = map fst (caches st)"
  by (induction ps arbitrary: st) simp_all

lemma settle_puts_fetched [simp]: "fetched (settle_puts st) = fetched st"
  by (simp add: settle_puts_def)

lemma settle_puts_none: "pendingPuts st = [] \<Longrightarrow> settle_puts st = st"
  by (simp add: settle_puts_def)

lemma settle_puts_last:
  assumes "pendingPuts st = ps @ [(name, k, r)]" and "\<not> put_refused r"
    and "name \<in> set (map fst (caches st))"
  shows "handle_match name k (settle_puts st) = Some r"
proof -
  have "name \<in> set (map fst (caches (fold land_put ps st)))"
    using assms(3) by simp
  with assms(2) have "handle_match name k (land_put (name, k, r) (fold land_put ps st)) = Some r"
    by (rule land_put_same)
  with assms(1) show ?thesis
    by (simp add: settle_puts_def handle_match_def)
qed


subsection \<open>Activation\<close>

lemma fold_delete:
  "caches (fold (\<lambda>cacheName s. if P cacheName then caches_delete cacheName s else s) ns st)
     = filter (\<lambda>(n, c). \<not> (n \<in> set ns \<and> P n)) (caches st)"
proof (induction ns arbitrary: st)
  case Nil
  then show ?case by simp
next
  case (Cons a ns)
  show ?case
    by (auto simp: Cons.IH caches_delete_def intro!: filter_cong)
qed

text \<open>
  Claim C8. Activation deletes exactly the caches whose names are none of the three
  current, version-qualified names (static, dynamic, api): the cache storage afterwards
  is the storage before, in the same order and with every entry of every kept cache,
  without the caches of other names.
\<close>

theorem activate_purges_exactly:
  "caches (activate st) =
     filter (\<lambda>(n, c). n = STATIC_CACHE \<or> n = DYNAMIC_CACHE \<or> n = API_CACHE) (caches st)"
  unfolding activate_def fold_delete caches_keys_def
  by (rule filter_cong) force+

text \<open>
  The example of claim C8: of the caches of the current version and one of an older
  version, activation removes only the older one.
\<close>

theorem activate_purges_exactly_example:
  "caches_keys old_version_state
     = [''foodiebot-static-v0'', ''foodiebot-static-v1'', ''foodiebot-dynamic-v1'', ''foodiebot-api-v1''] \<and>
   caches (activate old_version_state)
     = [(''foodiebot-static-v1'', [(''https://foodiebot.app/index.html'', fresh_response)]),
        (''foodiebot-dynamic-v1'', [(''https://foodiebot.app/menu'', fresh_response)]),
        (''foodiebot-api-v1'', [])]"
  using activate_purges_exactly [of old_version_state]
  by (simp add: old_version_state_def caches_keys_def STATIC_CACHE_def DYNAMIC_CACHE_def
      API_CACHE_def)

subsection \<open>Answers that are no Response\<close>

text \<open>
  Claim C1. With no stored entry and a rejected fetch, \<open>staleWhileRevalidate\<close> does
  not deliver the fallback: the request for \<^verbatim>\<open>/api/restaurants\<close> is given the
  stale-while-revalidate strategy, and the worker answers it with \<^verbatim>\<open>undefined\<close>.
\<close>

theorem staleWhileRevalidate_offline_miss_undefined:
  "selectStrategy (url (get_request ''/api/restaurants'' ''cors'')) = STALE_WHILE_REVALIDATE \<and>
   fst (fetchListener offline empty_state (get_request ''/api/restaurants'' ''cors''))
     = Some (Fulfilled Undefined) \<and>
   fst (staleWhileRevalidate offline empty_state (get_request ''/api/restaurants'' ''cors''))
     = Fulfilled Undefined"
  by code_simp

text \<open>
  Claim C4. For a navigation request, with no root document in the static cache,
  \<open>getOfflineFallback\<close> yields \<^verbatim>\<open>undefined\<close>, not the static offline document.
\<close>

theorem getOfflineFallback_navigate_undefined:
  "fst (getOfflineFallback empty_state (get_request ''/menu'' ''navigate'')) = Fulfilled Undefined"
  by code_simp

subsection \<open>Classification\<close>

text \<open>
  Claim C6. The strategy is a function of the URL alone, decided by the first rule that
  matches: a static asset gets \<open>CACHE_FIRST\<close>; otherwise an API path gets
  \<open>STALE_WHILE_REVALIDATE\<close>; otherwise an image extension gets \<open>CACHE_FIRST\<close>;
  otherwise \<open>NETWORK_FIRST\<close>. For a request that is not a GET the listener does not
  answer and the state is unchanged; a GET is answered by \<open>handleRequest\<close> with the
  strategy chosen.
\<close>

theorem classification_first_match:
  "(isStaticAsset u \<longrightarrow> selectStrategy u = CACHE_FIRST) \<and>
   (\<not> isStaticAsset u \<and> isAPIRequest u \<longrightarrow> selectStrategy u = STALE_WHILE_REVALIDATE) \<and>
   (\<not> isStaticAsset u \<and> \<not> isAPIRequest u \<and> isImageRequest u \<longrightarrow> selectStrategy u = CACHE_FIRST) \<and>
   (\<not> isStaticAsset u \<and> \<not> isAPIRequest u \<and> \<not> isImageRequest u \<longrightarrow>
      selectStrategy u = NETWORK_FIRST) \<and>
   (method req \<noteq> ''GET'' \<longrightarrow> fetchListener net st req = (None, st)) \<and>
   (method req = ''GET'' \<longrightarrow>
      fetchListener net st req =
        (Some (fst (handleRequest net st req (selectStrategy (url req)))),
         snd (handleRequest net st req (selectStrategy (url req)))))"
  by (simp add: selectStrategy_def fetchListener_def Let_def split_beta)

theorem classification_first_match_witness:
  "selectStrategy (url (get_request ''/api/app.js'' ''cors'')) = CACHE_FIRST \<and>
   selectStrategy (url (get_request ''/api/photo.webp'' ''cors'')) = STALE_WHILE_REVALIDATE \<and>
   selectStrategy (url (get_request ''/images/dish.webp'' ''no-cors'')) = CACHE_FIRST \<and>
   selectStrategy (url (get_request ''/menu'' ''navigate'')) = NETWORK_FIRST \<and>
   fetchListener (online fresh_response) empty_state
       ((get_request ''/api/orders'' ''cors'')\<lparr>method := ''POST''\<rparr>)
     = (None, empty_state) \<and>
   fetchListener offline
       (stored_state DYNAMIC_CACHE (request_key (get_request ''/menu'' ''navigate'')) stale_response)
       (get_request ''/menu'' ''navigate'')
     = (Some (Fulfilled (Resp stale_response)),
        log_fetch (Fetch (get_request ''/menu'' ''navigate''))
          (stored_state DYNAMIC_CACHE (request_key (get_request ''/menu'' ''navigate'')) stale_response))"
proof -
  let ?js = "url (get_request ''/api/app.js'' ''cors'')"
  let ?api = "url (get_request ''/api/photo.webp'' ''cors'')"
  let ?img = "url (get_request ''/images/dish.webp'' ''no-cors'')"
  let ?nav = "get_request ''/menu'' ''navigate''"
  let ?post = "(get_request ''/api/orders'' ''cors'')\<lparr>method := ''POST''\<rparr>"
  let ?st = "stored_state DYNAMIC_CACHE (request_key ?nav) stale_response"
  have js: "isStaticAsset ?js"
    by code_simp
  have api: "\<not> isStaticAsset ?api \<and> isAPIRequest ?api"
    by code_simp
  have img: "\<not> isStaticAsset ?img \<and> \<not> isAPIRequest ?img \<and> isImageRequest ?img"
    by code_simp
  have nav: "\<not> isStaticAsset (url ?nav) \<and> \<not> isAPIRequest (url ?nav) \<and> \<not> isImageRequest (url ?nav)"
    by code_simp
  have post: "method ?post \<noteq> ''GET''"
    by (simp add: get_request_def)
  have get: "method ?nav = ''GET''"
    by (simp add: get_request_def)
  have served: "handleRequest offline ?st ?nav NETWORK_FIRST
      = (Fulfilled (Resp stale_response), log_fetch (Fetch ?nav) ?st)"
    by (simp add: handleRequest_def networkFirst_def offline_def Let_def caches_match_def
        stored_state_def cache_match_def log_fetch_def)
  from js classification_first_match [of ?js ?post "online fresh_response" empty_state]
  have 1: "selectStrategy ?js = CACHE_FIRST"
    by blast
  from api classification_first_match [of ?api ?post "online fresh_response" empty_state]
  have 2: "selectStrategy ?api = STALE_WHILE_REVALIDATE"
    by blast
  from img classification_first_match [of ?img ?post "online fresh_response" empty_state]
  have 3: "selectStrategy ?img = CACHE_FIRST"
    by blast
  from nav classification_first_match [of "url ?nav" ?post "online fresh_response" empty_state]
  have 4: "selectStrategy (url ?nav) = NETWORK_FIRST"
    by blast
  from post classification_first_match [of ?js ?post "online fresh_response" empty_state]
  have 5: "fetchListener (online fresh_response) empty_state ?post = (None, empty_state)"
    by blast
  from get classification_first_match [of ?js ?nav offline ?st]
  have "fetchListener offline ?st ?nav =
      (Some (fst (handleRequest offline ?st ?nav (selectStrategy (url ?nav)))),
       snd (handleRequest offline ?st ?nav (selectStrategy (url ?nav))))"
    by blast
  with 4 served have 6: "fetchListener offline ?st ?nav
      = (Some (Fulfilled (Resp stale_response)), log_fetch (Fetch ?nav) ?st)"
    by simp
  from 1 2 3 4 5 6 show ?thesis
    by blast
qed





subsection \<open>Cache first\<close>










subsection \<open>Images outside the static patterns\<close>



subsection \<open>Stale while revalidate\<close>

text \<open>
  \<open>staleWhileRevalidate\<close> yields \<^verbatim>\<open>undefined\<close> whenever the partition has no entry
  for the key and the fetch is rejected, and so does \<open>getOfflineFallback\<close> for every
  navigation request when no root document is stored. No strategy ever rejects.
\<close>

lemma staleWhileRevalidate_miss_rejected:
  "handle_match (getCacheName req) (request_key req) st = None \<Longrightarrow> net (Fetch req) = None \<Longrightarrow>
   fst (staleWhileRevalidate net st req) = Fulfilled Undefined"
  by (simp add: staleWhileRevalidate_def staleWhileRevalidate_start_def networkPromise_def
      Let_def handle_match_open)

lemma getOfflineFallback_navigate_not_stored:
  assumes "mode req = ''navigate''" and "rootDocument st = None"
  shows "fst (getOfflineFallback st req) = Fulfilled Undefined"
proof -
  have loc: "resolve_url (caches_open STATIC_CACHE st) p = resolve_url st p" for p
    by (simp add: resolve_url_def caches_open_def)
  from assms show ?thesis
    by (simp add: getOfflineFallback_def Let_def loc handle_match_open rootDocument_def)
qed

lemma getOfflineFallback_fulfilled: "fst (getOfflineFallback st req) \<noteq> Rejected"
  by (simp add: getOfflineFallback_def Let_def split: option.splits)

lemma strategies_fulfilled:
  "fst (cacheFirst net st req) \<noteq> Rejected"
  "fst (networkFirst net st req) \<noteq> Rejected"
  "fst (staleWhileRevalidate net st req) \<noteq> Rejected"
  by (simp_all add: cacheFirst_def networkFirst_def staleWhileRevalidate_def
      staleWhileRevalidate_start_def networkPromise_def Let_def getOfflineFallback_fulfilled
      split: option.splits)

lemma staleWhileRevalidate_start_stored:
  assumes "handle_match (getCacheName req) (request_key req) st = Some c"
  shows "staleWhileRevalidate_start st req = (Some (Fulfilled (Resp c)), log_fetch (Fetch req) st)"
  using assms handle_match_Some_open [OF assms]
  by (simp add: staleWhileRevalidate_start_def Let_def)

lemma staleWhileRevalidate_stored:
  assumes "handle_match (getCacheName req) (request_key req) st = Some c"
  shows "staleWhileRevalidate net st req =
           (Fulfilled (Resp c),
            case net (Fetch req) of
              Some r \<Rightarrow>
                if ok r
                then handle_put (getCacheName req) (request_key req) r (log_fetch (Fetch req) st)
                else log_fetch (Fetch req) st
            | None \<Rightarrow> log_fetch (Fetch req) st)"
  by (simp add: staleWhileRevalidate_def staleWhileRevalidate_start_stored [OF assms]
      networkPromise_def split: option.splits)

text \<open>
  Claim C2, as amended. \<open>staleWhileRevalidate\<close>, when an entry is stored for the key in
  the request's partition: the first part of the function, which ends with the fetch
  issued and not settled and does not see the network, already answers the caller with
  exactly that entry; the answer of the whole function is that entry whatever the
  network does; one fetch is issued; when the fetch settles, the caches are still as
  they were, and a write of the response to the partition has been started exactly when
  the response is ok. Once the writes have settled, an ok response that the Cache API
  accepts (neither status 206 nor \<^verbatim>\<open>Vary: *\<close>) is the partition's entry for the key.
  A rejected fetch changes neither the caches nor the answer.
\<close>

theorem staleWhileRevalidate_stored_entry:
  assumes "handle_match (getCacheName req) (request_key req) st = Some c"
  shows "staleWhileRevalidate_start st req
           = (Some (Fulfilled (Resp c)), log_fetch (Fetch req) st) \<and>
         fst (staleWhileRevalidate net st req) = Fulfilled (Resp c) \<and>
         fetched (snd (staleWhileRevalidate net st req)) = fetched st @ [Fetch req] \<and>
         caches (snd (staleWhileRevalidate net st req)) = caches st \<and>
         pendingPuts (snd (staleWhileRevalidate net st req))
           = (case net (Fetch req) of
                Some r \<Rightarrow>
                  if ok r then pendingPuts st @ [(getCacheName req, request_key req, r)]
                  else pendingPuts st
              | None \<Rightarrow> pendingPuts st) \<and>
         (\<forall>r. net (Fetch req) = Some r \<and> ok r \<and> \<not> put_refused r \<longrightarrow>
            handle_match (getCacheName req) (request_key req)
              (settle_puts (snd (staleWhileRevalidate net st req))) = Some r)"
proof -
  note run = staleWhileRevalidate_stored [OF assms, of net]
  have landed: "handle_match (getCacheName req) (request_key req)
      (settle_puts (snd (staleWhileRevalidate net st req))) = Some r"
    if r: "net (Fetch req) = Some r" "ok r" "\<not> put_refused r" for r
  proof -
    let ?st' = "handle_put (getCacheName req) (request_key req) r (log_fetch (Fetch req) st)"
    have started: "pendingPuts ?st' = pendingPuts st @ [(getCacheName req, request_key req, r)]"
      by simp
    have named: "getCacheName req \<in> set (map fst (caches ?st'))"
      using handle_match_Some_named [OF assms] by simp
    have "handle_match (getCacheName req) (request_key req) (settle_puts ?st') = Some r"
      by (rule settle_puts_last [OF started r(3) named])
    with r(1,2) show ?thesis
      by (simp add: run)
  qed
  have "staleWhileRevalidate_start st req = (Some (Fulfilled (Resp c)), log_fetch (Fetch req) st)"
    by (rule staleWhileRevalidate_start_stored [OF assms])
  moreover have "fst (staleWhileRevalidate net st req) = Fulfilled (Resp c)"
    by (simp add: run)
  moreover have "fetched (snd (staleWhileRevalidate net st req)) = fetched st @ [Fetch req]"
    by (simp add: run split: option.splits)
  moreover have "caches (snd (staleWhileRevalidate net st req)) = caches st"
    by (simp add: run split: option.splits)
  moreover have "pendingPuts (snd (staleWhileRevalidate net st req))
           = (case net (Fetch req) of
                Some r \<Rightarrow>
                  if ok r then pendingPuts st @ [(getCacheName req, request_key req, r)]
                  else pendingPuts st
              | None \<Rightarrow> pendingPuts st)"
    by (simp add: run split: option.splits)
  ultimately show ?thesis
    using landed by blast
qed

theorem staleWhileRevalidate_stored_entry_witness:
  "staleWhileRevalidate_start
       (stored_state API_CACHE (request_key (get_request ''/api/menu'' ''cors'')) stale_response)
       (get_request ''/api/menu'' ''cors'')
     = (Some (Fulfilled (Resp stale_response)),
        log_fetch (Fetch (get_request ''/api/menu'' ''cors''))
          (stored_state API_CACHE (request_key (get_request ''/api/menu'' ''cors'')) stale_response)) \<and>
   fst (staleWhileRevalidate offline
          (stored_state API_CACHE (request_key (get_request ''/api/menu'' ''cors'')) stale_response)
          (get_request ''/api/menu'' ''cors''))
     = Fulfilled (Resp stale_response) \<and>
   fst (staleWhileRevalidate (online fresh_response)
          (stored_state API_CACHE (request_key (get_request ''/api/menu'' ''cors'')) stale_response)
          (get_request ''/api/menu'' ''cors''))
     = Fulfilled (Resp stale_response) \<and>
   handle_match API_CACHE (request_key (get_request ''/api/menu'' ''cors''))
     (settle_puts (snd (staleWhileRevalidate (online fresh_response)
        (stored_state API_CACHE (request_key (get_request ''/api/menu'' ''cors'')) stale_response)
        (get_request ''/api/menu'' ''cors''))))
     = Some fresh_response"
proof -
  let ?req = "get_request ''/api/menu'' ''cors''"
  let ?st = "stored_state API_CACHE (request_key ?req) stale_response"
  have name: "getCacheName ?req = API_CACHE"
    by code_simp
  have "handle_match API_CACHE (request_key ?req) ?st = Some stale_response"
    by (simp add: handle_match_def stored_state_def cache_match_def)
  with name have stored: "handle_match (getCacheName ?req) (request_key ?req) ?st = Some stale_response"
    by simp
  have fresh: "ok fresh_response \<and> \<not> put_refused fresh_response"
    by code_simp
  have on: "online fresh_response (Fetch ?req) = Some fresh_response"
    by (simp add: online_def)
  from staleWhileRevalidate_stored_entry [OF stored, of offline]
    staleWhileRevalidate_stored_entry [OF stored, of "online fresh_response"]
    name fresh on
  show ?thesis
    by simp
qed

text \<open>
  The claim as stated fails: a response of status 206 is ok, but the Cache API refuses
  to store it. The caller is answered with the stored entry, the background fetch is
  fulfilled with the 206 response, and after all writes have settled the entry for the
  key is still the old one.
\<close>

theorem staleWhileRevalidate_overwrite_counterexample:
  "ok partial_response \<and>
   handle_match API_CACHE (request_key (get_request ''/api/menu'' ''cors''))
     (stored_state API_CACHE (request_key (get_request ''/api/menu'' ''cors'')) stale_response)
     = Some stale_response \<and>
   getCacheName (get_request ''/api/menu'' ''cors'') = API_CACHE \<and>
   fst (staleWhileRevalidate (online partial_response)
          (stored_state API_CACHE (request_key (get_request ''/api/menu'' ''cors'')) stale_response)
          (get_request ''/api/menu'' ''cors''))
     = Fulfilled (Resp stale_response) \<and>
   fetched (snd (staleWhileRevalidate (online partial_response)
          (stored_state API_CACHE (request_key (get_request ''/api/menu'' ''cors'')) stale_response)
          (get_request ''/api/menu'' ''cors'')))
     = [Fetch (get_request ''/api/menu'' ''cors'')] \<and>
   handle_match API_CACHE (request_key (get_request ''/api/menu'' ''cors''))
     (settle_puts (snd (staleWhileRevalidate (online partial_response)
        (stored_state API_CACHE (request_key (get_request ''/api/menu'' ''cors'')) stale_response)
        (get_request ''/api/menu'' ''cors''))))
     = Some stale_response \<and>
   stale_response \<noteq> partial_response"
  by code_simp

subsection \<open>Network first\<close>





subsection \<open>The offline fallback\<close>

lemma api_envelope:
  \<open>JSON_stringify
      [(''error'', JString ''Offline''),
       (''message'', JString ''This feature is not available offline''),
       (''offline'', JBool True)]
    = ''{"error":"Offline","message":"This feature is not available offline","offline":true}''\<close>
  by code_simp

lemma getOfflineFallback_navigation:
  "fallbackCategory req = Navigation \<Longrightarrow>
   fst (getOfflineFallback st req)
     = (case rootDocument st of Some r \<Rightarrow> Fulfilled (Resp r) | None \<Rightarrow> Fulfilled Undefined)"
proof -
  assume "fallbackCategory req = Navigation"
  then have nav: "mode req = ''navigate''"
    by (simp add: fallbackCategory_def split: if_splits)
  have loc: "resolve_url (caches_open STATIC_CACHE st) p = resolve_url st p" for p
    by (simp add: resolve_url_def caches_open_def)
  from nav show ?thesis
    by (simp add: getOfflineFallback_def Let_def loc handle_match_open rootDocument_def
        split: option.splits)
qed

lemma getOfflineFallback_api:
  \<open>fallbackCategory req = Api \<Longrightarrow>
   getOfflineFallback st req
     = (Fulfilled (Resp \<lparr>status = 200, statusText = [],
          headers = [(''Content-Type'', ''application/json'')],
          body = ''{"error":"Offline","message":"This feature is not available offline","offline":true}''\<rparr>),
        st)\<close>
  by (simp add: fallbackCategory_def getOfflineFallback_def api_envelope new_Response_def
      split: if_splits)

lemma getOfflineFallback_image:
  "fallbackCategory req = Image \<Longrightarrow>
   getOfflineFallback st req
     = (Fulfilled (Resp \<lparr>status = 200, statusText = [],
          headers = [(''Content-Type'', ''image/svg+xml'')], body = getOfflineImageSVG\<rparr>),
        st)"
  by (simp add: fallbackCategory_def getOfflineFallback_def new_Response_def split: if_splits)

lemma getOfflineFallback_other:
  "fallbackCategory req = Other \<Longrightarrow>
   getOfflineFallback st req
     = (Fulfilled (Resp \<lparr>status = 503, statusText = ''Service Unavailable'',
          headers = [(''Content-Type'', ''text/plain;charset=UTF-8'')], body = ''Offline''\<rparr>),
        st)"
  by (simp add: fallbackCategory_def getOfflineFallback_def new_Response_def split: if_splits)

text \<open>
  Claim C9, as amended. The result of \<open>getOfflineFallback\<close> is determined by the
  request's category (navigation, else API path, else image extension, else other: the
  first test that succeeds) and the root document stored in the static cache: two calls
  with requests of the same category and the same stored root document give the same
  result. Every API request that is no navigation gets the fixed JSON envelope with
  status 200, and every image request that is neither a navigation nor an API request
  gets the fixed placeholder image with status 200.
\<close>

theorem getOfflineFallback_by_category:
  \<open>(fallbackCategory req1 = fallbackCategory req2 \<and> rootDocument st1 = rootDocument st2 \<longrightarrow>
      fst (getOfflineFallback st1 req1) = fst (getOfflineFallback st2 req2)) \<and>
   (mode req \<noteq> ''navigate'' \<and> isAPIRequest (url req) \<longrightarrow>
      getOfflineFallback st req
        = (Fulfilled (Resp \<lparr>status = 200, statusText = [],
             headers = [(''Content-Type'', ''application/json'')],
             body = ''{"error":"Offline","message":"This feature is not available offline","offline":true}''\<rparr>),
           st)) \<and>
   (mode req \<noteq> ''navigate'' \<and> \<not> isAPIRequest (url req) \<and> isImageRequest (url req) \<longrightarrow>
      getOfflineFallback st req
        = (Fulfilled (Resp \<lparr>status = 200, statusText = [],
             headers = [(''Content-Type'', ''image/svg+xml'')], body = getOfflineImageSVG\<rparr>),
           st))\<close>
proof (intro conjI impI)
  assume same: "fallbackCategory req1 = fallbackCategory req2 \<and> rootDocument st1 = rootDocument st2"
  show "fst (getOfflineFallback st1 req1) = fst (getOfflineFallback st2 req2)"
  proof (cases "fallbackCategory req2")
    case Navigation
    with same show ?thesis by (simp add: getOfflineFallback_navigation)
  next
    case Api
    with same show ?thesis by (simp add: getOfflineFallback_api)
  next
    case Image
    with same show ?thesis by (simp add: getOfflineFallback_image)
  next
    case Other
    with same show ?thesis by (simp add: getOfflineFallback_other)
  qed
next
  assume "mode req \<noteq> ''navigate'' \<and> isAPIRequest (url req)"
  then have "fallbackCategory req = Api"
    by (simp add: fallbackCategory_def)
  then show \<open>getOfflineFallback st req
        = (Fulfilled (Resp \<lparr>status = 200, statusText = [],
             headers = [(''Content-Type'', ''application/json'')],
             body = ''{"error":"Offline","message":"This feature is not available offline","offline":true}''\<rparr>),
           st)\<close>
    by (rule getOfflineFallback_api)
next
  assume "mode req \<noteq> ''navigate'' \<and> \<not> isAPIRequest (url req) \<and> isImageRequest (url req)"
  then have "fallbackCategory req = Image"
    by (simp add: fallbackCategory_def)
  then show "getOfflineFallback st req
        = (Fulfilled (Resp \<lparr>status = 200, statusText = [],
             headers = [(''Content-Type'', ''image/svg+xml'')], body = getOfflineImageSVG\<rparr>),
           st)"
    by (rule getOfflineFallback_image)
qed

theorem getOfflineFallback_by_category_witness:
  \<open>fst (getOfflineFallback empty_state (get_request ''/orders'' ''navigate''))
     = fst (getOfflineFallback
              (stored_state DYNAMIC_CACHE ''https://foodiebot.app/menu'' fresh_response)
              (get_request ''/api/menu'' ''navigate'')) \<and>
   fst (getOfflineFallback empty_state (get_request ''/api/restaurants'' ''cors''))
     = Fulfilled (Resp \<lparr>status = 200, statusText = [],
         headers = [(''Content-Type'', ''application/json'')],
         body = ''{"error":"Offline","message":"This feature is not available offline","offline":true}''\<rparr>) \<and>
   fst (getOfflineFallback empty_state (get_request ''/images/dish.webp'' ''no-cors''))
     = Fulfilled (Resp \<lparr>status = 200, statusText = [],
         headers = [(''Content-Type'', ''image/svg+xml'')], body = getOfflineImageSVG\<rparr>)\<close>
proof -
  let ?nav1 = "get_request ''/orders'' ''navigate''"
  let ?nav2 = "get_request ''/api/menu'' ''navigate''"
  let ?api = "get_request ''/api/restaurants'' ''cors''"
  let ?img = "get_request ''/images/dish.webp'' ''no-cors''"
  let ?st = "stored_state DYNAMIC_CACHE ''https://foodiebot.app/menu'' fresh_response"
  have same: "fallbackCategory ?nav1 = fallbackCategory ?nav2 \<and> rootDocument empty_state = rootDocument ?st"
    by code_simp
  have api: "mode ?api \<noteq> ''navigate'' \<and> isAPIRequest (url ?api)"
    by code_simp
  have img: "mode ?img \<noteq> ''navigate'' \<and> \<not> isAPIRequest (url ?img) \<and> isImageRequest (url ?img)"
    by code_simp
  from same getOfflineFallback_by_category [of ?nav1 ?nav2 empty_state ?st ?api empty_state]
  have 1: "fst (getOfflineFallback empty_state ?nav1) = fst (getOfflineFallback ?st ?nav2)"
    by blast
  from api getOfflineFallback_by_category [of ?nav1 ?nav2 empty_state ?st ?api empty_state]
  have 2: \<open>fst (getOfflineFallback empty_state ?api)
     = Fulfilled (Resp \<lparr>status = 200, statusText = [],
         headers = [(''Content-Type'', ''application/json'')],
         body = ''{"error":"Offline","message":"This feature is not available offline","offline":true}''\<rparr>)\<close>
    by simp
  from img getOfflineFallback_by_category [of ?nav1 ?nav2 empty_state ?st ?img empty_state]
  have 3: "fst (getOfflineFallback empty_state ?img)
     = Fulfilled (Resp \<lparr>status = 200, statusText = [],
         headers = [(''Content-Type'', ''image/svg+xml'')], body = getOfflineImageSVG\<rparr>)"
    by simp
  from 1 2 3 show ?thesis
    by blast
qed

text \<open>
  The claim as stated fails: the same navigation request gets different results when
  the stored root document differs; an API request that is a navigation (given the
  stale-while-revalidate strategy by the listener) gets the root document, not the JSON
  envelope; an image request under an API path gets the JSON envelope, not the
  placeholder image; and the envelope's error field is \<^verbatim>\<open>"Offline"\<close>, not
  \<^verbatim>\<open>"offline"\<close>.
\<close>

theorem getOfflineFallback_category_counterexample:
  \<open>fallbackCategory (get_request ''/orders'' ''navigate'') = Navigation \<and>
   fst (getOfflineFallback
          (stored_state STATIC_CACHE ''https://foodiebot.app/index.html'' fresh_response)
          (get_request ''/orders'' ''navigate''))
     \<noteq> fst (getOfflineFallback
          (stored_state STATIC_CACHE ''https://foodiebot.app/index.html'' stale_response)
          (get_request ''/orders'' ''navigate'')) \<and>
   isAPIRequest (url (get_request ''/api/restaurants'' ''navigate'')) \<and>
   selectStrategy (url (get_request ''/api/restaurants'' ''navigate'')) = STALE_WHILE_REVALIDATE \<and>
   fst (getOfflineFallback
          (stored_state STATIC_CACHE ''https://foodiebot.app/index.html'' fresh_response)
          (get_request ''/api/restaurants'' ''navigate''))
     = Fulfilled (Resp fresh_response) \<and>
   isImageRequest (url (get_request ''/api/photo.png'' ''no-cors'')) \<and>
   fst (getOfflineFallback empty_state (get_request ''/api/photo.png'' ''no-cors''))
     \<noteq> Fulfilled (Resp (new_Response getOfflineImageSVG 200 []
           [(''Content-Type'', ''image/svg+xml'')])) \<and>
   fst (getOfflineFallback empty_state (get_request ''/api/restaurants'' ''cors''))
     \<noteq> Fulfilled (Resp (new_Response
           (JSON_stringify
              [(''error'', JString ''offline''),
               (''message'', JString ''This feature is not available offline''),
               (''offline'', JBool True)])
           200 [] [(''Content-Type'', ''application/json'')]))\<close>
  by code_simp

subsection \<open>Background sync\<close>

text \<open>
  With the placeholders of the source, \<open>syncOfflineOrders\<close> reads no order and does
  nothing.
\<close>

lemma syncOfflineOrders_placeholders: "syncOfflineOrders net st = st"
  by (simp add: syncOfflineOrders_def syncOrdersWith_def getOfflineOrders_def)






end
